theory Spec2Isabelle
  imports Main "HOL-Library.Char_ord" "HOL-Library.List_Lexorder"
begin

section \<open>Errors and strings\<close>

text \<open>
  Go's \<^verbatim>\<open>error\<close> values that reach the response helpers: a value built by
  \<^verbatim>\<open>fmt.Errorf\<close> or \<^verbatim>\<open>errors.New\<close> (it carries its message), the two sentinels of
  package \<^verbatim>\<open>io\<close>, the errors of \<^verbatim>\<open>encoding/json\<close>, and
  \<^verbatim>\<open>http.ErrBodyNotAllowed\<close>.
\<close>

datatype error =
    ErrorString string
  | EOF
  | ErrUnexpectedEOF
  | SyntaxError string
  | UnsupportedTypeError string
  | ErrBodyNotAllowed

text \<open>The method \<^verbatim>\<open>Error()\<close> of each of them.\<close>

fun Error_msg :: "error \<Rightarrow> string" where
  "Error_msg (ErrorString s) = s"
| "Error_msg EOF = ''EOF''"
| "Error_msg ErrUnexpectedEOF = ''unexpected EOF''"
| "Error_msg (SyntaxError msg) = msg"
| "Error_msg (UnsupportedTypeError t) = ''json: unsupported type: '' @ t"
| "Error_msg ErrBodyNotAllowed =
     ''http: request method or response status code does not allow body''"

text \<open>\<^verbatim>\<open>strings.Join(elems, sep)\<close>.\<close>

fun Join :: "string list \<Rightarrow> string \<Rightarrow> string" where
  "Join [] sep = []"
| "Join [x] sep = x"
| "Join (x # y # ys) sep = x @ sep @ Join (y # ys) sep"

section \<open>The error envelope\<close>

text \<open>
  \<^verbatim>\<open>type Response struct\<close> of package response, the JSON object of every error
  response: its fields are written under the keys \<open>status\<close> and \<open>error\<close>.
\<close>

record Response =
  Status :: string
  Error :: string

section \<open>The standard library the helpers call\<close>

subsection \<open>\<^verbatim>\<open>http.ResponseWriter\<close>\<close>

text \<open>How a call ends: it returns, or it panics.\<close>

datatype outcome = Returned | Panicked

text \<open>
  The response under construction, as \<^verbatim>\<open>net/http\<close> implements the interface
  \<^verbatim>\<open>http.ResponseWriter\<close>. \<open>Header\<close> is the header map the handler may still change
  (\<^verbatim>\<open>Set\<close> leaves one value under a key). \<open>wroteHeader\<close>, \<open>status\<close> and
  \<open>sentHeader\<close> are the committed status line: whether it is written, its code, and the
  headers as they stood at that moment. \<open>written\<close> holds the bytes of the body,
  \<open>connErr\<close> the error every write to the connection meets when the peer is gone, and
  \<open>headerCalls\<close> counts the calls of \<^verbatim>\<open>WriteHeader\<close>, so that a second response to
  the same request is visible.
\<close>

record ResponseWriter =
  Header :: "string \<rightharpoonup> string"
  wroteHeader :: bool
  status :: int
  sentHeader :: "string \<rightharpoonup> string"
  written :: string
  connErr :: "error option"
  headerCalls :: nat

definition Header_Set :: "string \<Rightarrow> string \<Rightarrow> ResponseWriter \<Rightarrow> ResponseWriter" where
  "Header_Set k v w = w\<lparr>Header := (Header w)(k \<mapsto> v)\<rparr>"

definition StatusOK :: int where
  "StatusOK = 200"

definition StatusSwitchingProtocols :: int where
  "StatusSwitchingProtocols = 101"

definition StatusNoContent :: int where
  "StatusNoContent = 204"

definition StatusNotModified :: int where
  "StatusNotModified = 304"

text \<open>
  \<^verbatim>\<open>WriteHeader(code)\<close>. Once the header is written a further call is superfluous and
  changes nothing. Otherwise \<^verbatim>\<open>checkWriteHeaderCode\<close> panics on a code below 100 or
  above 999; an informational code (100 to 199, but not 101) sends an interim response and
  leaves the final status open (interim responses are not kept in the state); any other
  code is committed as the status of the response, with the headers as they stand.
\<close>

definition WriteHeader :: "int \<Rightarrow> ResponseWriter \<Rightarrow> outcome \<times> ResponseWriter" where
  "WriteHeader code w =
     (let w1 = w\<lparr>headerCalls := Suc (headerCalls w)\<rparr> in
      if wroteHeader w then (Returned, w1)
      else if code < 100 \<or> 999 < code then (Panicked, w1)
      else if 100 \<le> code \<and> code \<le> 199 \<and> code \<noteq> StatusSwitchingProtocols
        then (Returned, w1)
      else (Returned, w1\<lparr>wroteHeader := True, status := code, sentHeader := Header w\<rparr>))"

text \<open>\<^verbatim>\<open>bodyAllowedForStatus\<close>: no body goes with a 1xx, a 204 or a 304 response.\<close>

definition bodyAllowedForStatus :: "int \<Rightarrow> bool" where
  "bodyAllowedForStatus st =
     (\<not> (100 \<le> st \<and> st \<le> 199) \<and> st \<noteq> StatusNoContent \<and> st \<noteq> StatusNotModified)"

text \<open>
  \<^verbatim>\<open>Write(b)\<close>: when no header has been written it writes the status 200 first (a
  valid code, so this call returns); no byte to write is no error; a status that allows no
  body gives \<^verbatim>\<open>http.ErrBodyNotAllowed\<close> and nothing is written; otherwise the bytes go
  to the connection, and the result is the error of that write, if any.
\<close>

definition Write :: "string \<Rightarrow> ResponseWriter \<Rightarrow> error option \<times> ResponseWriter" where
  "Write b w =
     (let w1 = (if wroteHeader w then w else snd (WriteHeader StatusOK w)) in
      if b = [] then (None, w1)
      else if \<not> bodyAllowedForStatus (status w1) then (Some ErrBodyNotAllowed, w1)
      else
        (case connErr w1 of
           Some e \<Rightarrow> (Some e, w1)
         | None \<Rightarrow> (None, w1\<lparr>written := written w1 @ b\<rparr>)))"

text \<open>
  The writer \<^verbatim>\<open>net/http\<close> hands to a handler: nothing set, nothing written; \<open>ce\<close> is
  the state of the connection.
\<close>

definition newResponse :: "error option \<Rightarrow> ResponseWriter" where
  "newResponse ce =
     \<lparr>Header = Map.empty, wroteHeader = False, status = 0, sentHeader = Map.empty,
      written = [], connErr = ce, headerCalls = 0\<rparr>"

subsection \<open>\<^verbatim>\<open>encoding/json\<close>: encoding\<close>

text \<open>
  The values \<^verbatim>\<open>WriteJson\<close> receives as \<^verbatim>\<open>data interface{}\<close>: the handler passes a
  \<^verbatim>\<open>Response\<close> or a \<^verbatim>\<open>map[string]string\<close> (its entries, one per key); \<open>DUnsupported\<close>
  stands for a value of a type \<^verbatim>\<open>encoding/json\<close> has no encoding for (a channel, a
  function, a complex number), named by its type.
\<close>

datatype json_data =
    DResponse Response
  | DStringMap "(string \<times> string) list"
  | DUnsupported string

text \<open>
  \<^verbatim>\<open>utf8.DecodeRuneInString\<close>: the rune at the head of a byte string and its width;
  \<open>(RuneError, 1)\<close> for an invalid encoding.
\<close>

definition RuneError :: nat where
  "RuneError = 0xFFFD"

fun DecodeRuneInString :: "string \<Rightarrow> nat \<times> nat" where
  "DecodeRuneInString [] = (RuneError, 0)"
| "DecodeRuneInString (c0 # rest) =
     (let s0 = (of_char c0 :: nat) in
      if s0 < 0x80 then (s0, 1)
      else if s0 < 0xC2 \<or> 0xF4 < s0 then (RuneError, 1)
      else
        let sz = (if s0 < 0xE0 then 2 else if s0 < 0xF0 then 3 else (4::nat));
            lo = (if s0 = 0xE0 then 0xA0 else if s0 = 0xF0 then 0x90 else (0x80::nat));
            hi = (if s0 = 0xED then 0x9F else if s0 = 0xF4 then 0x8F else (0xBF::nat))
        in
        if length (c0 # rest) < sz then (RuneError, 1)
        else
          let s1 = (of_char (rest ! 0) :: nat) in
          if s1 < lo \<or> hi < s1 then (RuneError, 1)
          else if sz \<le> 2 then ((s0 mod 32) * 64 + s1 mod 64, 2)
          else
            let s2 = (of_char (rest ! 1) :: nat) in
            if s2 < 0x80 \<or> 0xBF < s2 then (RuneError, 1)
            else if sz \<le> 3 then ((s0 mod 16) * 4096 + (s1 mod 64) * 64 + s2 mod 64, 3)
            else
              let s3 = (of_char (rest ! 2) :: nat) in
              if s3 < 0x80 \<or> 0xBF < s3 then (RuneError, 1)
              else ((s0 mod 8) * 262144 + (s1 mod 64) * 4096 + (s2 mod 64) * 64 + s3 mod 64, 4))"

definition hex :: string where
  "hex = ''0123456789abcdef''"

text \<open>
  \<open>htmlSafeSet\<close>: the ASCII bytes a JSON string carries unescaped when HTML escaping is
  on (the default of an \<^verbatim>\<open>Encoder\<close>): 0x20 to 0x7F but the double quote, the backslash,
  \<open>&\<close>, \<open><\<close> and \<open>>\<close>.
\<close>

definition htmlSafeSet :: "char \<Rightarrow> bool" where
  "htmlSafeSet b =
     (0x20 \<le> (of_char b :: nat) \<and> (of_char b :: nat) < 0x80
      \<and> b \<noteq> CHR 0x22 \<and> b \<noteq> CHR 0x5C \<and> b \<noteq> CHR ''&'' \<and> b \<noteq> CHR ''<'' \<and> b \<noteq> CHR ''>'')"

text \<open>The escape of an ASCII byte outside \<open>htmlSafeSet\<close>.\<close>

definition escape_byte :: "char \<Rightarrow> string" where
  "escape_byte b =
     (if b = CHR 0x5C \<or> b = CHR 0x22 then [CHR 0x5C, b]
      else if b = CHR 0x08 then [CHR 0x5C, CHR ''b'']
      else if b = CHR 0x0C then [CHR 0x5C, CHR ''f'']
      else if b = CHR 0x0A then [CHR 0x5C, CHR ''n'']
      else if b = CHR 0x0D then [CHR 0x5C, CHR ''r'']
      else if b = CHR 0x09 then [CHR 0x5C, CHR ''t'']
      else [CHR 0x5C, CHR ''u'', CHR ''0'', CHR ''0'',
            hex ! ((of_char b :: nat) div 16), hex ! ((of_char b :: nat) mod 16)])"

text \<open>
  The loop of \<^verbatim>\<open>appendString\<close>, from the byte at the head: an ASCII byte is copied or
  escaped; an invalid UTF-8 byte becomes the escape of U+FFFD; U+2028 and U+2029 are escaped; any
  other rune is copied with all its bytes.
\<close>

function appendString_loop :: "string \<Rightarrow> string" where
  "appendString_loop [] = []"
| "appendString_loop (b # rest) =
     (if (of_char b :: nat) < 0x80 then
        (if htmlSafeSet b then [b] else escape_byte b) @ appendString_loop rest
      else
        let c = fst (DecodeRuneInString (take 4 (b # rest)));
            size = snd (DecodeRuneInString (take 4 (b # rest)))
        in
        if c = RuneError \<and> size = 1 then
          [CHR 0x5C, CHR ''u'', CHR ''f'', CHR ''f'', CHR ''f'', CHR ''d'']
            @ appendString_loop rest
        else if c = 0x2028 \<or> c = 0x2029 then
          [CHR 0x5C, CHR ''u'', CHR ''2'', CHR ''0'', CHR ''2'', hex ! (c mod 16)]
            @ appendString_loop (drop (size - 1) rest)
        else take size (b # rest) @ appendString_loop (drop (size - 1) rest))"
  by pat_completeness auto
termination
  by (relation "measure length") auto

definition appendString :: "string \<Rightarrow> string" where
  "appendString src = [CHR 0x22] @ appendString_loop src @ [CHR 0x22]"

text \<open>
  \<^verbatim>\<open>json.Marshal\<close> on these values. A \<^verbatim>\<open>Response\<close> is the object of its two fields
  under the names of their tags, \<open>status\<close> and \<open>error\<close>; a map is the object of its
  entries in the order of their keys.
\<close>

definition encode_Response :: "Response \<Rightarrow> string" where
  "encode_Response r =
     [CHR ''{''] @ appendString ''status'' @ [CHR '':''] @ appendString (Status r)
     @ [CHR '',''] @ appendString ''error'' @ [CHR '':''] @ appendString (Error r)
     @ [CHR ''}'']"

definition encode_StringMap :: "(string \<times> string) list \<Rightarrow> string" where
  "encode_StringMap kvs =
     [CHR ''{'']
     @ Join (map (\<lambda>kv. appendString (fst kv) @ [CHR '':''] @ appendString (snd kv))
               (sort_key fst kvs)) '',''
     @ [CHR ''}'']"

fun marshal :: "json_data \<Rightarrow> error + string" where
  "marshal (DResponse r) = Inr (encode_Response r)"
| "marshal (DStringMap kvs) = Inr (encode_StringMap kvs)"
| "marshal (DUnsupported t) = Inl (UnsupportedTypeError t)"

text \<open>
  \<^verbatim>\<open>json.NewEncoder(w).Encode(data)\<close>: the value is serialised first; when that fails
  the error is returned and nothing is written; otherwise the bytes and a newline go to
  \<open>w\<close> in one \<^verbatim>\<open>Write\<close>, whose error is the result.
\<close>

definition Encode :: "ResponseWriter \<Rightarrow> json_data \<Rightarrow> error option \<times> ResponseWriter" where
  "Encode w data =
     (case marshal data of
        Inl e \<Rightarrow> (Some e, w)
      | Inr b \<Rightarrow> Write (b @ [CHR 0x0A]) w)"

subsection \<open>\<^verbatim>\<open>encoding/json\<close>: the scanner\<close>

text \<open>
  \<^verbatim>\<open>quoteChar\<close>, which names the offending byte in a syntax error: the single and the
  double quote are special; any other byte is shown as \<^verbatim>\<open>strconv.Quote\<close> shows the rune
  of that code, between single quotes.
\<close>

definition quoteChar :: "char \<Rightarrow> string" where
  "quoteChar c =
     (let n = (of_char c :: nat) in
      if c = CHR 0x27 then [CHR 0x27, CHR 0x5C, CHR 0x27, CHR 0x27]
      else if c = CHR 0x22 then [CHR 0x27, CHR 0x22, CHR 0x27]
      else
        [CHR 0x27]
        @ (if c = CHR 0x5C then [CHR 0x5C, CHR 0x5C]
           else if 0x20 \<le> n \<and> n \<le> 0x7E then [c]
           else if 0xA1 \<le> n \<and> n \<noteq> 0xAD
             then [char_of (0xC0 + n div 64), char_of (0x80 + n mod 64)]
           else if n = 0x07 then [CHR 0x5C, CHR ''a'']
           else if n = 0x08 then [CHR 0x5C, CHR ''b'']
           else if n = 0x0C then [CHR 0x5C, CHR ''f'']
           else if n = 0x0A then [CHR 0x5C, CHR ''n'']
           else if n = 0x0D then [CHR 0x5C, CHR ''r'']
           else if n = 0x09 then [CHR 0x5C, CHR ''t'']
           else if n = 0x0B then [CHR 0x5C, CHR ''v'']
           else if n < 0x20 \<or> n = 0x7F
             then [CHR 0x5C, CHR ''x'', hex ! (n div 16), hex ! (n mod 16)]
           else [CHR 0x5C, CHR ''u'', CHR ''0'', CHR ''0'', hex ! (n div 16), hex ! (n mod 16)])
        @ [CHR 0x27])"

text \<open>
  The scanner of \<^verbatim>\<open>encoding/json\<close> (\<^verbatim>\<open>scanner.go\<close>) is a state machine fed one byte at
  a time. \<open>step\<close> is its current state function, \<open>parseState\<close> the stack of the
  composite values being scanned (innermost first here; Go appends at the end of a slice),
  \<open>scan_err\<close> (the field \<^verbatim>\<open>err\<close>) the syntax error it met, \<open>endTop\<close> whether the top-level value has ended.
\<close>

datatype state_fn =
    StateBeginValueOrEmpty | StateBeginValue | StateBeginStringOrEmpty | StateBeginString
  | StateEndValue | StateEndTop
  | StateInString | StateInStringEsc
  | StateInStringEscU | StateInStringEscU1 | StateInStringEscU12 | StateInStringEscU123
  | StateNeg | State1 | State0 | StateDot | StateDot0 | StateE | StateESign | StateE0
  | StateT | StateTr | StateTru
  | StateF | StateFa | StateFal | StateFals
  | StateN | StateNu | StateNul
  | StateError

datatype parse_state = parseObjectKey | parseObjectValue | parseArrayValue

datatype scan_code =
    scanContinue | scanBeginLiteral | scanBeginObject | scanObjectKey | scanObjectValue
  | scanEndObject | scanBeginArray | scanArrayValue | scanEndArray | scanSkipSpace
  | scanEnd | scanError

record scanner =
  step :: state_fn
  endTop :: bool
  parseState :: "parse_state list"
  scan_err :: "error option"

definition maxNestingDepth :: nat where
  "maxNestingDepth = 10000"

definition scanner_reset :: scanner where
  "scanner_reset = \<lparr>step = StateBeginValue, endTop = False, parseState = [], scan_err = None\<rparr>"

definition scanner_error :: "scanner \<Rightarrow> char \<Rightarrow> string \<Rightarrow> scan_code \<times> scanner" where
  "scanner_error s c context =
     (scanError,
      s\<lparr>step := StateError,
        scan_err := Some (SyntaxError (''invalid character '' @ quoteChar c @ '' '' @ context))\<rparr>)"

definition pushParseState ::
  "scanner \<Rightarrow> char \<Rightarrow> parse_state \<Rightarrow> scan_code \<Rightarrow> scan_code \<times> scanner" where
  "pushParseState s c newParseState successState =
     (let s1 = s\<lparr>parseState := newParseState # parseState s\<rparr> in
      if length (parseState s1) \<le> maxNestingDepth then (successState, s1)
      else scanner_error s1 c ''exceeded max depth'')"

definition popParseState :: "scanner \<Rightarrow> scanner" where
  "popParseState s =
     (let rest = tl (parseState s) in
      if rest = [] then s\<lparr>parseState := rest, step := StateEndTop, endTop := True\<rparr>
      else s\<lparr>parseState := rest, step := StateEndValue\<rparr>)"

definition isSpace :: "char \<Rightarrow> bool" where
  "isSpace c = (c = CHR '' '' \<or> c = CHR 0x09 \<or> c = CHR 0x0D \<or> c = CHR 0x0A)"

definition isDigit :: "char \<Rightarrow> bool" where
  "isDigit c = (0x30 \<le> (of_char c :: nat) \<and> (of_char c :: nat) \<le> 0x39)"

definition isDigit19 :: "char \<Rightarrow> bool" where
  "isDigit19 c = (0x31 \<le> (of_char c :: nat) \<and> (of_char c :: nat) \<le> 0x39)"

definition isHexDigit :: "char \<Rightarrow> bool" where
  "isHexDigit c =
     (let n = (of_char c :: nat) in
      0x30 \<le> n \<and> n \<le> 0x39 \<or> 0x61 \<le> n \<and> n \<le> 0x66 \<or> 0x41 \<le> n \<and> n \<le> 0x46)"

definition stateEndTop :: "scanner \<Rightarrow> char \<Rightarrow> scan_code \<times> scanner" where
  "stateEndTop s c =
     (if \<not> isSpace c then (scanEnd, snd (scanner_error s c ''after top-level value''))
      else (scanEnd, s))"

definition stateEndValue :: "scanner \<Rightarrow> char \<Rightarrow> scan_code \<times> scanner" where
  "stateEndValue s c =
     (case parseState s of
        [] \<Rightarrow> stateEndTop (s\<lparr>step := StateEndTop, endTop := True\<rparr>) c
      | ps # rest \<Rightarrow>
          if isSpace c then (scanSkipSpace, s\<lparr>step := StateEndValue\<rparr>)
          else
            (case ps of
               parseObjectKey \<Rightarrow>
                 if c = CHR '':''
                 then (scanObjectKey,
                       s\<lparr>parseState := parseObjectValue # rest, step := StateBeginValue\<rparr>)
                 else scanner_error s c ''after object key''
             | parseObjectValue \<Rightarrow>
                 if c = CHR '',''
                 then (scanObjectValue,
                       s\<lparr>parseState := parseObjectKey # rest, step := StateBeginString\<rparr>)
                 else if c = CHR ''}'' then (scanEndObject, popParseState s)
                 else scanner_error s c ''after object key:value pair''
             | parseArrayValue \<Rightarrow>
                 if c = CHR '','' then (scanArrayValue, s\<lparr>step := StateBeginValue\<rparr>)
                 else if c = CHR '']'' then (scanEndArray, popParseState s)
                 else scanner_error s c ''after array element''))"

definition stateBeginValue :: "scanner \<Rightarrow> char \<Rightarrow> scan_code \<times> scanner" where
  "stateBeginValue s c =
     (if isSpace c then (scanSkipSpace, s)
      else if c = CHR ''{''
        then pushParseState (s\<lparr>step := StateBeginStringOrEmpty\<rparr>) c parseObjectKey
               scanBeginObject
      else if c = CHR ''[''
        then pushParseState (s\<lparr>step := StateBeginValueOrEmpty\<rparr>) c parseArrayValue
               scanBeginArray
      else if c = CHR 0x22 then (scanBeginLiteral, s\<lparr>step := StateInString\<rparr>)
      else if c = CHR ''-'' then (scanBeginLiteral, s\<lparr>step := StateNeg\<rparr>)
      else if c = CHR ''0'' then (scanBeginLiteral, s\<lparr>step := State0\<rparr>)
      else if c = CHR ''t'' then (scanBeginLiteral, s\<lparr>step := StateT\<rparr>)
      else if c = CHR ''f'' then (scanBeginLiteral, s\<lparr>step := StateF\<rparr>)
      else if c = CHR ''n'' then (scanBeginLiteral, s\<lparr>step := StateN\<rparr>)
      else if isDigit19 c then (scanBeginLiteral, s\<lparr>step := State1\<rparr>)
      else scanner_error s c ''looking for beginning of value'')"

definition stateBeginValueOrEmpty :: "scanner \<Rightarrow> char \<Rightarrow> scan_code \<times> scanner" where
  "stateBeginValueOrEmpty s c =
     (if isSpace c then (scanSkipSpace, s)
      else if c = CHR '']'' then stateEndValue s c
      else stateBeginValue s c)"

definition stateBeginString :: "scanner \<Rightarrow> char \<Rightarrow> scan_code \<times> scanner" where
  "stateBeginString s c =
     (if isSpace c then (scanSkipSpace, s)
      else if c = CHR 0x22 then (scanBeginLiteral, s\<lparr>step := StateInString\<rparr>)
      else scanner_error s c ''looking for beginning of object key string'')"

text \<open>
  \<^verbatim>\<open>stateBeginStringOrEmpty\<close> overwrites the top of the stack on \<open>}\<close>; the state is
  entered only after a push, so the stack is not empty there (on an empty one Go's index
  would be out of range; the model leaves the stack as it is).
\<close>

definition stateBeginStringOrEmpty :: "scanner \<Rightarrow> char \<Rightarrow> scan_code \<times> scanner" where
  "stateBeginStringOrEmpty s c =
     (if isSpace c then (scanSkipSpace, s)
      else if c = CHR ''}''
        then stateEndValue
               (s\<lparr>parseState :=
                    (case parseState s of [] \<Rightarrow> [] | ps # rest \<Rightarrow> parseObjectValue # rest)\<rparr>) c
      else stateBeginString s c)"

definition stateInString :: "scanner \<Rightarrow> char \<Rightarrow> scan_code \<times> scanner" where
  "stateInString s c =
     (if c = CHR 0x22 then (scanContinue, s\<lparr>step := StateEndValue\<rparr>)
      else if c = CHR 0x5C then (scanContinue, s\<lparr>step := StateInStringEsc\<rparr>)
      else if (of_char c :: nat) < 0x20 then scanner_error s c ''in string literal''
      else (scanContinue, s))"

definition stateInStringEsc :: "scanner \<Rightarrow> char \<Rightarrow> scan_code \<times> scanner" where
  "stateInStringEsc s c =
     (if c = CHR ''b'' \<or> c = CHR ''f'' \<or> c = CHR ''n'' \<or> c = CHR ''r'' \<or> c = CHR ''t''
         \<or> c = CHR 0x5C \<or> c = CHR ''/'' \<or> c = CHR 0x22
      then (scanContinue, s\<lparr>step := StateInString\<rparr>)
      else if c = CHR ''u'' then (scanContinue, s\<lparr>step := StateInStringEscU\<rparr>)
      else scanner_error s c ''in string escape code'')"

text \<open>The four states of the hexadecimal digits after \<open>\u\<close> differ in the next state.\<close>

definition stateInStringEscHex ::
  "state_fn \<Rightarrow> scanner \<Rightarrow> char \<Rightarrow> scan_code \<times> scanner" where
  "stateInStringEscHex next s c =
     (if isHexDigit c then (scanContinue, s\<lparr>step := next\<rparr>)
      else scanner_error s c ([CHR ''i'', CHR ''n'', CHR '' '', CHR 0x5C, CHR ''u'']
                              @ '' hexadecimal character escape''))"

definition stateNeg :: "scanner \<Rightarrow> char \<Rightarrow> scan_code \<times> scanner" where
  "stateNeg s c =
     (if c = CHR ''0'' then (scanContinue, s\<lparr>step := State0\<rparr>)
      else if isDigit19 c then (scanContinue, s\<lparr>step := State1\<rparr>)
      else scanner_error s c ''in numeric literal'')"

definition state0 :: "scanner \<Rightarrow> char \<Rightarrow> scan_code \<times> scanner" where
  "state0 s c =
     (if c = CHR ''.'' then (scanContinue, s\<lparr>step := StateDot\<rparr>)
      else if c = CHR ''e'' \<or> c = CHR ''E'' then (scanContinue, s\<lparr>step := StateE\<rparr>)
      else stateEndValue s c)"

definition state1 :: "scanner \<Rightarrow> char \<Rightarrow> scan_code \<times> scanner" where
  "state1 s c =
     (if isDigit c then (scanContinue, s\<lparr>step := State1\<rparr>)
      else state0 s c)"

definition stateDot :: "scanner \<Rightarrow> char \<Rightarrow> scan_code \<times> scanner" where
  "stateDot s c =
     (if isDigit c then (scanContinue, s\<lparr>step := StateDot0\<rparr>)
      else scanner_error s c ''after decimal point in numeric literal'')"

definition stateDot0 :: "scanner \<Rightarrow> char \<Rightarrow> scan_code \<times> scanner" where
  "stateDot0 s c =
     (if isDigit c then (scanContinue, s)
      else if c = CHR ''e'' \<or> c = CHR ''E'' then (scanContinue, s\<lparr>step := StateE\<rparr>)
      else stateEndValue s c)"

definition stateESign :: "scanner \<Rightarrow> char \<Rightarrow> scan_code \<times> scanner" where
  "stateESign s c =
     (if isDigit c then (scanContinue, s\<lparr>step := StateE0\<rparr>)
      else scanner_error s c ''in exponent of numeric literal'')"

definition stateE :: "scanner \<Rightarrow> char \<Rightarrow> scan_code \<times> scanner" where
  "stateE s c =
     (if c = CHR ''+'' \<or> c = CHR ''-'' then (scanContinue, s\<lparr>step := StateESign\<rparr>)
      else stateESign s c)"

definition stateE0 :: "scanner \<Rightarrow> char \<Rightarrow> scan_code \<times> scanner" where
  "stateE0 s c =
     (if isDigit c then (scanContinue, s)
      else stateEndValue s c)"

text \<open>
  The states inside \<open>true\<close>, \<open>false\<close> and \<open>null\<close> each accept one letter:
  \<open>stateLiteral lit want next\<close> is the state that wants the letter \<open>want\<close> of the
  literal \<open>lit\<close> and goes on to \<open>next\<close>.
\<close>

definition stateLiteral ::
  "string \<Rightarrow> char \<Rightarrow> state_fn \<Rightarrow> scanner \<Rightarrow> char \<Rightarrow> scan_code \<times> scanner" where
  "stateLiteral lit want next s c =
     (if c = want then (scanContinue, s\<lparr>step := next\<rparr>)
      else scanner_error s c
             (''in literal '' @ lit @ '' (expecting '' @ [CHR 0x27, want, CHR 0x27] @ '')''))"

text \<open>\<open>s.step(s, c)\<close>: the call of the current state function.\<close>

definition scan_step :: "scanner \<Rightarrow> char \<Rightarrow> scan_code \<times> scanner" where
  "scan_step s c =
     (case step s of
        StateBeginValueOrEmpty \<Rightarrow> stateBeginValueOrEmpty s c
      | StateBeginValue \<Rightarrow> stateBeginValue s c
      | StateBeginStringOrEmpty \<Rightarrow> stateBeginStringOrEmpty s c
      | StateBeginString \<Rightarrow> stateBeginString s c
      | StateEndValue \<Rightarrow> stateEndValue s c
      | StateEndTop \<Rightarrow> stateEndTop s c
      | StateInString \<Rightarrow> stateInString s c
      | StateInStringEsc \<Rightarrow> stateInStringEsc s c
      | StateInStringEscU \<Rightarrow> stateInStringEscHex StateInStringEscU1 s c
      | StateInStringEscU1 \<Rightarrow> stateInStringEscHex StateInStringEscU12 s c
      | StateInStringEscU12 \<Rightarrow> stateInStringEscHex StateInStringEscU123 s c
      | StateInStringEscU123 \<Rightarrow> stateInStringEscHex StateInString s c
      | StateNeg \<Rightarrow> stateNeg s c
      | State1 \<Rightarrow> state1 s c
      | State0 \<Rightarrow> state0 s c
      | StateDot \<Rightarrow> stateDot s c
      | StateDot0 \<Rightarrow> stateDot0 s c
      | StateE \<Rightarrow> stateE s c
      | StateESign \<Rightarrow> stateESign s c
      | StateE0 \<Rightarrow> stateE0 s c
      | StateT \<Rightarrow> stateLiteral ''true'' (CHR ''r'') StateTr s c
      | StateTr \<Rightarrow> stateLiteral ''true'' (CHR ''u'') StateTru s c
      | StateTru \<Rightarrow> stateLiteral ''true'' (CHR ''e'') StateEndValue s c
      | StateF \<Rightarrow> stateLiteral ''false'' (CHR ''a'') StateFa s c
      | StateFa \<Rightarrow> stateLiteral ''false'' (CHR ''l'') StateFal s c
      | StateFal \<Rightarrow> stateLiteral ''false'' (CHR ''s'') StateFals s c
      | StateFals \<Rightarrow> stateLiteral ''false'' (CHR ''e'') StateEndValue s c
      | StateN \<Rightarrow> stateLiteral ''null'' (CHR ''u'') StateNu s c
      | StateNu \<Rightarrow> stateLiteral ''null'' (CHR ''l'') StateNul s c
      | StateNul \<Rightarrow> stateLiteral ''null'' (CHR ''l'') StateEndValue s c
      | StateError \<Rightarrow> (scanError, s))"

subsection \<open>\<^verbatim>\<open>encoding/json\<close>: \<^verbatim>\<open>Decoder.Decode\<close>\<close>

text \<open>
  The inner loop of \<^verbatim>\<open>Decoder.readValue\<close> over the bytes of the stream, from the
  position \<open>scanp\<close>: it stops with the length of the first value as soon as the scanner
  reports its end (\<open>Found\<close>), with the scanner's error (\<open>Failed\<close>), or with the scanner
  as it stands when the bytes are used up (\<open>Exhausted\<close>). After the closing bracket of
  an object or an array it asks \<^verbatim>\<open>stateEndValue\<close> with an invented space whether the
  top-level value has ended, instead of reading one more byte.
\<close>

datatype scan_result = Found nat | Failed "error option" | Exhausted scanner

fun scan_buf :: "scanner \<Rightarrow> nat \<Rightarrow> string \<Rightarrow> scan_result" where
  "scan_buf s scanp [] = Exhausted s"
| "scan_buf s scanp (c # buf) =
     (case scan_step s c of
        (code, s1) \<Rightarrow>
          if code = scanEnd then Found scanp
          else if code = scanEndObject \<or> code = scanEndArray then
            (case stateEndValue s1 (CHR '' '') of
               (code2, s2) \<Rightarrow>
                 if code2 = scanEnd then Found (Suc scanp)
                 else scan_buf s2 (Suc scanp) buf)
          else if code = scanError then Failed (scan_err s1)
          else scan_buf s1 (Suc scanp) buf)"

text \<open>
  What the loop does with the result of one step: \<open>Some s\<close> when it goes on to the
  next byte with the scanner \<open>s\<close>, \<open>None\<close> when it stops at this byte.
\<close>

definition after_step :: "scan_code \<times> scanner \<Rightarrow> scanner option" where
  "after_step r =
     (case r of
        (code, s1) \<Rightarrow>
          if code = scanEnd then None
          else if code = scanEndObject \<or> code = scanEndArray then
            (case stateEndValue s1 (CHR '' '') of
               (code2, s2) \<Rightarrow> if code2 = scanEnd then None else Some s2)
          else if code = scanError then None
          else Some s1)"

definition nonSpace :: "string \<Rightarrow> bool" where
  "nonSpace b = list_ex (\<lambda>c. \<not> isSpace c) b"

text \<open>
  \<^verbatim>\<open>readValue\<close> on a stream that delivers the bytes \<open>buf\<close> and then \<^verbatim>\<open>io.EOF\<close>: the
  length of the first value and the error. At the end of the stream a value that a space
  would end is complete; otherwise the error is \<^verbatim>\<open>io.ErrUnexpectedEOF\<close> when a byte
  other than white space was read and \<^verbatim>\<open>io.EOF\<close> when none was.
\<close>

definition readValue :: "string \<Rightarrow> nat \<times> error option" where
  "readValue buf =
     (case scan_buf scanner_reset 0 buf of
        Found n \<Rightarrow> (n, None)
      | Failed e \<Rightarrow> (0, e)
      | Exhausted s \<Rightarrow>
          if fst (scan_step s (CHR '' '')) = scanEnd then (length buf, None)
          else if nonSpace buf then (0, Some ErrUnexpectedEOF)
          else (0, Some EOF))"

text \<open>
  \<^verbatim>\<open>Decode(v)\<close> of a new decoder: the first value of the stream is read whole and only
  its bytes are handed to \<open>unmarshal\<close>, which fills \<open>v\<close>. \<open>unmarshal\<close> stands for
  \<^verbatim>\<open>(*decodeState).unmarshal\<close> at the type of \<open>v\<close>; it is a parameter of the model.
\<close>

definition Decode ::
  "(string \<Rightarrow> 'v \<Rightarrow> error option \<times> 'v) \<Rightarrow> string \<Rightarrow> 'v \<Rightarrow> error option \<times> 'v" where
  "Decode unmarshal body v =
     (case readValue body of
        (n, Some e) \<Rightarrow> (Some e, v)
      | (n, None) \<Rightarrow> unmarshal (take n body) v)"

section \<open>Package response (internal/utils/response/response.go)\<close>

definition StatusOk :: string where
  "StatusOk = ''OK''"

definition StatusError :: string where
  "StatusError = ''Error''"

text \<open>
  \<^verbatim>\<open>WriteJson(w, status, data)\<close>: the content type, then the status, then the encoding
  of \<open>data\<close>; the result is the error of \<^verbatim>\<open>Encode\<close>. A panic of
  \<^verbatim>\<open>WriteHeader\<close> ends the call before anything is encoded.
\<close>

definition WriteJson ::
  "ResponseWriter \<Rightarrow> int \<Rightarrow> json_data \<Rightarrow> outcome \<times> error option \<times> ResponseWriter" where
  "WriteJson w st data =
     (let w1 = Header_Set ''Content-Type'' ''application/json'' w in
      case WriteHeader st w1 of
        (Panicked, w2) \<Rightarrow> (Panicked, None, w2)
      | (Returned, w2) \<Rightarrow>
          (case Encode w2 data of (e, w3) \<Rightarrow> (Returned, e, w3)))"

text \<open>\<^verbatim>\<open>GeneralError(err)\<close>: the envelope of one error.\<close>

definition GeneralError :: "error \<Rightarrow> Response" where
  "GeneralError err = \<lparr>Status = StatusError, Error = Error_msg err\<rparr>"

text \<open>
  One element of \<^verbatim>\<open>validator.ValidationErrors\<close>. Of the interface
  \<^verbatim>\<open>validator.FieldError\<close> the code calls \<^verbatim>\<open>ActualTag()\<close> and \<^verbatim>\<open>Field()\<close>; the
  second is named \<open>Field_name\<close> here, \<open>Field\<close> being a constant of HOL.
\<close>

record FieldError =
  ActualTag :: string
  Field_name :: string

text \<open>
  The loop of \<^verbatim>\<open>ValidationError\<close>: \<open>errMsg\<close> is the slice the messages are appended to,
  the \<^verbatim>\<open>switch\<close> has the case \<^verbatim>\<open>"required"\<close> and the default.
\<close>

fun ValidationError_loop :: "FieldError list \<Rightarrow> string list \<Rightarrow> string list" where
  "ValidationError_loop [] errMsg = errMsg"
| "ValidationError_loop (err # errs) errMsg =
     (if ActualTag err = ''required''
      then ValidationError_loop errs
             (errMsg @ [''field '' @ Field_name err @ '' is required field''])
      else ValidationError_loop errs
             (errMsg @ [''field '' @ Field_name err @ '' is invalid'']))"

definition ValidationError :: "FieldError list \<Rightarrow> Response" where
  "ValidationError errs =
     \<lparr>Status = StatusError, Error = Join (ValidationError_loop errs []) '', ''\<rparr>"

subsection \<open>The Validation Mapper as the specification words it\<close>

text \<open>
  The sentence of one failure: \<open>field <Name> is required field\<close> when the kind is
  \<open>required\<close>, \<open>field <Name> is invalid\<close> for any other kind.
\<close>

definition spec_sentence :: "string \<Rightarrow> string \<Rightarrow> string" where
  "spec_sentence kind name =
     (if kind = ''required'' then ''field '' @ name @ '' is required field''
      else ''field '' @ name @ '' is invalid'')"

text \<open>
  Concatenation with a separator: the first sentence, then each further sentence
  preceded by the separator, in the order given.
\<close>

definition spec_concat :: "string \<Rightarrow> string list \<Rightarrow> string" where
  "spec_concat sep xs =
     (case xs of [] \<Rightarrow> [] | x # rest \<Rightarrow> x @ concat (map (\<lambda>y. sep @ y) rest))"

section \<open>Package types and the validator\<close>

text \<open>
  Modelled from the spec: the struct \<^verbatim>\<open>types.Student\<close> (package \<^verbatim>\<open>internal/types\<close>,
  which is not among the sources) and its validation tags. The specification's data model
  gives the request three fields, in this order: \<open>name\<close> (non-empty string, required),
  \<open>email\<close> (required, must be a syntactically valid email) and \<open>age\<close> (required,
  positive integer); its test of the messages names the Go fields \<open>Name\<close> and
  \<open>Email\<close>. \<open>Age\<close> is Go's \<^verbatim>\<open>int\<close>; nothing is computed with it, it is only
  compared with zero.
\<close>

record Student =
  Name :: string
  Email :: string
  Age :: int

definition Student_zero :: Student where
  "Student_zero = \<lparr>Name = [], Email = [], Age = 0\<rparr>"

text \<open>
  The tags of \<^verbatim>\<open>validator/v10\<close> that express these constraints: \<open>required\<close> on
  every field, \<open>email\<close> on a string, \<open>gt=0\<close> on an integer. \<open>required\<close> fails on
  the zero value of the field's type (the empty string, the integer 0); \<open>email\<close> holds
  by the validator's regular expression, which is a parameter here (\<open>is_email\<close>);
  \<open>gt=p\<close> holds of an integer above \<open>p\<close>.
\<close>

datatype string_tag = SRequired | SEmail

datatype int_tag = IRequired | IGt int

fun string_tag_name :: "string_tag \<Rightarrow> string" where
  "string_tag_name SRequired = ''required''"
| "string_tag_name SEmail = ''email''"

fun int_tag_name :: "int_tag \<Rightarrow> string" where
  "int_tag_name IRequired = ''required''"
| "int_tag_name (IGt p) = ''gt''"

fun string_tag_ok :: "(string \<Rightarrow> bool) \<Rightarrow> string_tag \<Rightarrow> string \<Rightarrow> bool" where
  "string_tag_ok is_email SRequired v = (v \<noteq> [])"
| "string_tag_ok is_email SEmail v = is_email v"

fun int_tag_ok :: "int_tag \<Rightarrow> int \<Rightarrow> bool" where
  "int_tag_ok IRequired v = (v \<noteq> 0)"
| "int_tag_ok (IGt p) v = (p < v)"

definition Student_Name_tags :: "string_tag list" where
  "Student_Name_tags = [SRequired]"

definition Student_Email_tags :: "string_tag list" where
  "Student_Email_tags = [SRequired, SEmail]"

definition Student_Age_tags :: "int_tag list" where
  "Student_Age_tags = [IRequired, IGt 0]"

text \<open>
  The validator runs the tags of a field in their order and reports the first that fails,
  one \<^verbatim>\<open>FieldError\<close> per failing field.
\<close>

definition validate_string ::
  "(string \<Rightarrow> bool) \<Rightarrow> string \<Rightarrow> string_tag list \<Rightarrow> string \<Rightarrow> FieldError list" where
  "validate_string is_email name tags v =
     (case find (\<lambda>t. \<not> string_tag_ok is_email t v) tags of
        None \<Rightarrow> []
      | Some t \<Rightarrow> [\<lparr>ActualTag = string_tag_name t, Field_name = name\<rparr>])"

definition validate_int :: "string \<Rightarrow> int_tag list \<Rightarrow> int \<Rightarrow> FieldError list" where
  "validate_int name tags v =
     (case find (\<lambda>t. \<not> int_tag_ok t v) tags of
        None \<Rightarrow> []
      | Some t \<Rightarrow> [\<lparr>ActualTag = int_tag_name t, Field_name = name\<rparr>])"

text \<open>
  The error of \<^verbatim>\<open>validator.New().Struct(s)\<close>: \<^verbatim>\<open>ValidationErrors\<close>, the failures of
  the fields in the order of their declaration, or \<^verbatim>\<open>*InvalidValidationError\<close>, which
  the validator returns for an argument that is no struct.
\<close>

datatype validator_error = ValidationErrors "FieldError list" | InvalidValidationError

definition Student_failures :: "(string \<Rightarrow> bool) \<Rightarrow> Student \<Rightarrow> FieldError list" where
  "Student_failures is_email s =
     validate_string is_email ''Name'' Student_Name_tags (Name s)
     @ validate_string is_email ''Email'' Student_Email_tags (Email s)
     @ validate_int ''Age'' Student_Age_tags (Age s)"

definition validator_Struct :: "(string \<Rightarrow> bool) \<Rightarrow> Student \<Rightarrow> validator_error option" where
  "validator_Struct is_email s =
     (let errs = Student_failures is_email s
      in if errs = [] then None else Some (ValidationErrors errs))"

section \<open>Package student: the create-student handler\<close>

record Request =
  Body :: string

definition StatusBadRequest :: int where
  "StatusBadRequest = 400"

definition StatusCreated :: int where
  "StatusCreated = 201"

text \<open>\<^verbatim>\<open>errors.Is(err, io.EOF)\<close> on the errors of this model, none of which wraps another.\<close>

definition errors_Is_EOF :: "error option \<Rightarrow> bool" where
  "errors_Is_EOF e = (e = Some EOF)"

text \<open>
  A statement \<^verbatim>\<open>response.WriteJson(...)\<close> followed by \<^verbatim>\<open>return\<close>: the error
  \<^verbatim>\<open>WriteJson\<close> returns is dropped; a panic inside it ends the handler.
\<close>

definition WriteJson_return ::
  "outcome \<times> error option \<times> ResponseWriter \<Rightarrow> outcome \<times> ResponseWriter" where
  "WriteJson_return res = (fst res, snd (snd res))"

text \<open>
  The function \<^verbatim>\<open>New()\<close> returns, applied to the writer and the request. The type
  assertion \<^verbatim>\<open>err.(validator.ValidationErrors)\<close> has no second result, so it panics on
  any other error. The log line of \<^verbatim>\<open>slog.Info\<close> is not part of the state.
\<close>

definition New ::
  "(string \<Rightarrow> Student \<Rightarrow> error option \<times> Student) \<Rightarrow> (string \<Rightarrow> bool)
   \<Rightarrow> ResponseWriter \<Rightarrow> Request \<Rightarrow> outcome \<times> ResponseWriter" where
  "New unmarshal is_email w r =
     (case Decode unmarshal (Body r) Student_zero of
        (err, student) \<Rightarrow>
          if errors_Is_EOF err then
            WriteJson_return
              (WriteJson w StatusBadRequest
                 (DResponse (GeneralError (ErrorString ''empty body''))))
          else
            (case err of
               Some e \<Rightarrow>
                 WriteJson_return (WriteJson w StatusBadRequest (DResponse (GeneralError e)))
             | None \<Rightarrow>
                 (case validator_Struct is_email student of
                    Some verr \<Rightarrow>
                      (case verr of
                         ValidationErrors validateErrs \<Rightarrow>
                           WriteJson_return
                             (WriteJson w StatusBadRequest
                                (DResponse (ValidationError validateErrs)))
                       | InvalidValidationError \<Rightarrow> (Panicked, w))
                  | None \<Rightarrow>
                      WriteJson_return
                        (WriteJson w StatusCreated (DStringMap [(''Success'', ''ok'')])))))"

subsection \<open>Concrete requests\<close>

text \<open>
  Instances of the two parameters for concrete runs of the handler: a test of the form of
  an email that looks for the \<open>@\<close>, and the results of \<^verbatim>\<open>unmarshal\<close> on three
  request objects (on any other value this instance reports an error).
\<close>

definition example_is_email :: "string \<Rightarrow> bool" where
  "example_is_email e = (CHR ''@'' \<in> set e)"

definition example_unmarshal :: "string \<Rightarrow> Student \<Rightarrow> error option \<times> Student" where
  \<open>example_unmarshal b v =
     (if b = ''{"name":"Ann","email":"ann@example.org","age":20}''
        then (None, \<lparr>Name = ''Ann'', Email = ''ann@example.org'', Age = 20\<rparr>)
      else if b = ''{"email":"not-an-email","age":20}''
        then (None, \<lparr>Name = [], Email = ''not-an-email'', Age = 20\<rparr>)
      else if b = ''{"name":"Ann","email":"ann@example.org","age":-3}''
        then (None, \<lparr>Name = ''Ann'', Email = ''ann@example.org'', Age = - 3\<rparr>)
      else (Some (ErrorString ''json: no example for this value''), v))\<close>

definition example_body :: string where
  \<open>example_body = ''{"name":"Ann","email":"ann@example.org","age":20}''\<close>

definition example_body_two_failures :: string where
  \<open>example_body_two_failures = ''{"email":"not-an-email","age":20}''\<close>

definition example_body_negative_age :: string where
  \<open>example_body_negative_age = ''{"name":"Ann","email":"ann@example.org","age":-3}''\<close>

subsection \<open>The validation outcome as the specification words it\<close>

text \<open>
  One message per failing field, in the order in which the fields are declared: a field
  that is missing (empty, zero) is \<open>required\<close>; a field that is present and breaks its
  constraint (an email of invalid form, an age that is not positive) is \<open>invalid\<close>.
\<close>

definition spec_messages :: "(string \<Rightarrow> bool) \<Rightarrow> Student \<Rightarrow> string list" where
  "spec_messages is_email s =
     (if Name s = [] then [''field Name is required field''] else [])
     @ (if Email s = [] then [''field Email is required field'']
        else if \<not> is_email (Email s) then [''field Email is invalid'']
        else [])
     @ (if Age s = 0 then [''field Age is required field'']
        else if Age s < 0 then [''field Age is invalid'']
        else [])"

section \<open>Properties of the response helpers\<close>

lemma Join_spec_concat: "Join xs sep = spec_concat sep xs"
  by (induction xs sep rule: Join.induct) (simp_all add: spec_concat_def)

lemma ValidationError_loop_map:
  "ValidationError_loop errs errMsg =
     errMsg @ map (\<lambda>e. spec_sentence (ActualTag e) (Field_name e)) errs"
  by (induction errs arbitrary: errMsg) (simp_all add: spec_sentence_def)

lemma ValidationError_Status: "Status (ValidationError errs) = ''Error''"
  by (simp add: ValidationError_def StatusError_def)

lemma GeneralError_Status: "Status (GeneralError err) = ''Error''"
  by (simp add: GeneralError_def StatusError_def)

text \<open>
  C3. For every ordered sequence of field-level validation failures,
  \<^verbatim>\<open>ValidationError\<close> returns the envelope whose status is \<open>Error\<close> and whose error
  string is the concatenation, with the separator \<open>, \<close>, of one sentence per failure:
  \<open>field <Name> is required field\<close> for a failure whose tag is \<open>required\<close> and
  \<open>field <Name> is invalid\<close> for any other tag. The sentences stand in the order of the
  input, one for each element of it (nothing is reordered, nothing is dropped or merged).
\<close>

theorem ValidationError_spec:
  "ValidationError errs =
     \<lparr>Status = ''Error'',
      Error = spec_concat '', ''
                (map (\<lambda>e. spec_sentence (ActualTag e) (Field_name e)) errs)\<rparr>
   \<and> length (ValidationError_loop errs []) = length errs"
  by (simp add: ValidationError_def StatusError_def ValidationError_loop_map Join_spec_concat)

text \<open>
  C9. Every envelope built by \<^verbatim>\<open>GeneralError\<close> and every envelope built by
  \<^verbatim>\<open>ValidationError\<close> has the status \<open>Error\<close>, which is not \<open>OK\<close>, for every error
  value and every sequence of failures; the empty sequence gives the envelope with status
  \<open>Error\<close> and the empty error string.
\<close>

theorem envelope_status_Error:
  "Status (GeneralError err) = StatusError
   \<and> Status (ValidationError errs) = StatusError
   \<and> StatusError = ''Error''
   \<and> StatusError \<noteq> StatusOk
   \<and> ValidationError [] = \<lparr>Status = ''Error'', Error = ''''\<rparr>"
  by (simp add: GeneralError_def ValidationError_def StatusError_def StatusOk_def)

section \<open>Properties of \<^verbatim>\<open>WriteJson\<close>\<close>

lemma WriteJson_fresh:
  "\<not> wroteHeader w \<Longrightarrow> 200 \<le> st \<Longrightarrow> st \<le> 999 \<Longrightarrow> bodyAllowedForStatus st \<Longrightarrow>
   WriteJson w st data =
     (case marshal data of
        Inl e \<Rightarrow>
          (Returned, Some e,
           w\<lparr>Header := (Header w)(''Content-Type'' \<mapsto> ''application/json''),
             headerCalls := Suc (headerCalls w), wroteHeader := True, status := st,
             sentHeader := (Header w)(''Content-Type'' \<mapsto> ''application/json'')\<rparr>)
      | Inr b \<Rightarrow>
          (Returned, connErr w,
           w\<lparr>Header := (Header w)(''Content-Type'' \<mapsto> ''application/json''),
             headerCalls := Suc (headerCalls w), wroteHeader := True, status := st,
             sentHeader := (Header w)(''Content-Type'' \<mapsto> ''application/json''),
             written := (if connErr w = None then written w @ b @ [CHR 0x0A]
                         else written w)\<rparr>))"
  by (auto simp add: WriteJson_def Encode_def Header_Set_def WriteHeader_def Write_def Let_def
      StatusSwitchingProtocols_def
      split: sum.splits option.splits)

lemma bodyAllowed_handler_codes: "bodyAllowedForStatus 400" "bodyAllowedForStatus 201"
  by (simp_all add: bodyAllowedForStatus_def StatusNoContent_def StatusNotModified_def)

lemma WriteJson_handler_codes:
  assumes "\<not> wroteHeader w" and "st = 400 \<or> st = 201"
  shows "WriteJson w st data =
     (case marshal data of
        Inl e \<Rightarrow>
          (Returned, Some e,
           w\<lparr>Header := (Header w)(''Content-Type'' \<mapsto> ''application/json''),
             headerCalls := Suc (headerCalls w), wroteHeader := True, status := st,
             sentHeader := (Header w)(''Content-Type'' \<mapsto> ''application/json'')\<rparr>)
      | Inr b \<Rightarrow>
          (Returned, connErr w,
           w\<lparr>Header := (Header w)(''Content-Type'' \<mapsto> ''application/json''),
             headerCalls := Suc (headerCalls w), wroteHeader := True, status := st,
             sentHeader := (Header w)(''Content-Type'' \<mapsto> ''application/json''),
             written := (if connErr w = None then written w @ b @ [CHR 0x0A]
                         else written w)\<rparr>))"
proof -
  from assms(2) have "200 \<le> st" "st \<le> 999" "bodyAllowedForStatus st"
    using bodyAllowed_handler_codes by auto
  with assms(1) show ?thesis by (rule WriteJson_fresh)
qed

text \<open>
  Outside the final status codes that allow a body, \<^verbatim>\<open>net/http\<close> decides otherwise:
  a code that is no status code makes \<^verbatim>\<open>WriteHeader\<close> panic after the content type
  is set; after an informational code the body goes out under the status 200; with 204 the
  status is committed and the body is refused.
\<close>

lemma WriteJson_invalid_code:
  "WriteJson (newResponse None) 0 (DStringMap []) =
     (Panicked, None,
      (newResponse None)
        \<lparr>Header := [''Content-Type'' \<mapsto> ''application/json''], headerCalls := 1\<rparr>)"
  by (simp add: WriteJson_def Header_Set_def WriteHeader_def newResponse_def)

lemma WriteJson_informational_code:
  "fst (WriteJson (newResponse None) 103 (DStringMap [])) = Returned
   \<and> status (snd (snd (WriteJson (newResponse None) 103 (DStringMap [])))) = 200
   \<and> written (snd (snd (WriteJson (newResponse None) 103 (DStringMap [])))) = ''{}'' @ [CHR 0x0A]"
  by (simp add: WriteJson_def Header_Set_def WriteHeader_def newResponse_def Encode_def
      Write_def encode_StringMap_def bodyAllowedForStatus_def StatusOK_def
      StatusSwitchingProtocols_def StatusNoContent_def StatusNotModified_def)

lemma WriteJson_no_content:
  "fst (snd (WriteJson (newResponse None) 204 (DStringMap []))) = Some ErrBodyNotAllowed
   \<and> status (snd (snd (WriteJson (newResponse None) 204 (DStringMap [])))) = 204
   \<and> written (snd (snd (WriteJson (newResponse None) 204 (DStringMap [])))) = []"
  by (simp add: WriteJson_def Header_Set_def WriteHeader_def newResponse_def Encode_def
      Write_def encode_StringMap_def bodyAllowedForStatus_def StatusOK_def
      StatusSwitchingProtocols_def StatusNoContent_def StatusNotModified_def)

text \<open>
  C7. For a status code that \<^verbatim>\<open>net/http\<close> takes as the final status of a response with
  a body (200 to 999, but not 204 and not 304) and a writer whose header is not yet
  written, \<^verbatim>\<open>WriteJson(w, status, data)\<close> returns after it has set the content type to
  \<open>application/json\<close> before the status is committed (the committed headers carry it),
  committed \<open>status\<close> as the HTTP status with one call of \<^verbatim>\<open>WriteHeader\<close>, and then
  serialised \<open>data\<close>: when the serialisation succeeds its bytes and a newline are
  appended to the body (unless the write to the connection fails, whose error is
  returned); when the serialisation fails its error is returned to the caller, no byte is
  written, and the status code is committed all the same.
\<close>

theorem WriteJson_contract:
  assumes "\<not> wroteHeader w" and "200 \<le> st" and "st \<le> 999" and "bodyAllowedForStatus st"
  shows "fst (WriteJson w st data) = Returned
    \<and> sentHeader (snd (snd (WriteJson w st data))) ''Content-Type'' = Some ''application/json''
    \<and> wroteHeader (snd (snd (WriteJson w st data)))
    \<and> status (snd (snd (WriteJson w st data))) = st
    \<and> headerCalls (snd (snd (WriteJson w st data))) = Suc (headerCalls w)
    \<and> (case marshal data of
         Inl e \<Rightarrow>
           fst (snd (WriteJson w st data)) = Some e
           \<and> written (snd (snd (WriteJson w st data))) = written w
       | Inr b \<Rightarrow>
           fst (snd (WriteJson w st data)) = connErr w
           \<and> written (snd (snd (WriteJson w st data))) =
               (if connErr w = None then written w @ b @ [CHR 0x0A] else written w))"
  using assms by (simp add: WriteJson_fresh split: sum.splits)

theorem WriteJson_contract_witness:
  "\<not> wroteHeader (newResponse None) \<and> bodyAllowedForStatus 500
   \<and> fst (WriteJson (newResponse None) 500 (DUnsupported ''chan int'')) = Returned
   \<and> fst (snd (WriteJson (newResponse None) 500 (DUnsupported ''chan int'')))
       = Some (UnsupportedTypeError ''chan int'')
   \<and> status (snd (snd (WriteJson (newResponse None) 500 (DUnsupported ''chan int'')))) = 500
   \<and> wroteHeader (snd (snd (WriteJson (newResponse None) 500 (DUnsupported ''chan int''))))
   \<and> written (snd (snd (WriteJson (newResponse None) 500 (DUnsupported ''chan int'')))) = []"
proof -
  have h: "\<not> wroteHeader (newResponse None)"
    by (simp add: newResponse_def)
  have lo: "(200::int) \<le> 500" and hi: "(500::int) \<le> 999"
    by simp_all
  have b: "bodyAllowedForStatus 500"
    by (simp add: bodyAllowedForStatus_def StatusNoContent_def StatusNotModified_def)
  show ?thesis
    using h b WriteJson_contract [OF h lo hi b, of "DUnsupported ''chan int''"]
    by (simp add: newResponse_def)
qed

section \<open>Properties of the decoder\<close>

lemma scan_buf_Found_append:
  "scan_buf s k xs = Found n \<Longrightarrow> scan_buf s k (xs @ ys) = Found n"
  by (induction xs arbitrary: s k) (auto split: prod.splits if_splits)

lemma scan_buf_Failed_append:
  "scan_buf s k xs = Failed e \<Longrightarrow> scan_buf s k (xs @ ys) = Failed e"
  by (induction xs arbitrary: s k) (auto split: prod.splits if_splits)

lemma scan_buf_Found_bound:
  "scan_buf s k xs = Found n \<Longrightarrow> n \<le> k + length xs"
  by (induction xs arbitrary: s k) (fastforce split: prod.splits if_splits)+

lemmas state_defs = stateBeginValueOrEmpty_def stateBeginValue_def stateBeginStringOrEmpty_def
  stateBeginString_def stateInString_def stateInStringEsc_def stateInStringEscHex_def
  stateNeg_def state1_def state0_def stateDot_def stateDot0_def stateE_def stateESign_def
  stateE0_def stateLiteral_def stateEndTop_def

lemma stateEndValue_brace':
  "after_step (stateEndValue s (CHR ''}'')) = Some s2 \<Longrightarrow> fst (scan_step s2 (CHR '' '')) \<noteq> scanEnd"
  by (auto simp add: after_step_def stateEndValue_def stateEndTop_def scanner_error_def popParseState_def isSpace_def scan_step_def Let_def
      split: list.splits parse_state.splits if_splits prod.splits)

lemma after_step_error: "after_step (scanner_error s c ctx) = None"
  by (simp add: after_step_def scanner_error_def)

lemma after_step_simple:
  "after_step (scanError, s) = None"
  "after_step (scanEnd, s) = None"
  "after_step (scanContinue, s) = Some s"
  by (simp_all add: after_step_def)

lemma scan_step_brace_cases:
  "after_step (scan_step s (CHR ''}'')) = Some s2 \<Longrightarrow>
   (step s = StateInString \<and> s2 = s) \<or> (\<exists>s0. after_step (stateEndValue s0 (CHR ''}'')) = Some s2)"
  by (cases "step s")
     (auto simp add: scan_step_def state_defs after_step_error after_step_simple
        isSpace_def isDigit_def isDigit19_def isHexDigit_def Let_def)

lemma stateInString_space:
  "step s = StateInString \<Longrightarrow> fst (scan_step s (CHR '' '')) = scanContinue"
  by (simp add: scan_step_def stateInString_def)

lemma scan_step_brace:
  "after_step (scan_step s (CHR ''}'')) = Some s2 \<Longrightarrow> fst (scan_step s2 (CHR '' '')) \<noteq> scanEnd"
  using scan_step_brace_cases [of s s2] stateEndValue_brace' stateInString_space
  by fastforce

lemma scan_buf_step:
  "after_step (scan_step s c) = Some s2 \<Longrightarrow> scan_buf s k (c # buf) = scan_buf s2 (Suc k) buf"
  by (auto simp add: after_step_def split: prod.splits if_splits)

lemma scan_buf_stop:
  "after_step (scan_step s c) = None \<Longrightarrow> scan_buf s k (c # buf) \<noteq> Exhausted s'"
  by (auto simp add: after_step_def split: prod.splits if_splits)

lemma scan_buf_Exhausted_brace:
  "scan_buf s k xs = Exhausted s' \<Longrightarrow> xs \<noteq> [] \<Longrightarrow> last xs = CHR ''}'' \<Longrightarrow>
   fst (scan_step s' (CHR '' '')) \<noteq> scanEnd"
proof (induction xs arbitrary: s k)
  case Nil
  then show ?case by simp
next
  case (Cons c cs)
  show ?case
  proof (cases "after_step (scan_step s c)")
    case None
    with Cons.prems(1) show ?thesis
      using scan_buf_stop by blast
  next
    case (Some s2)
    then have step: "scan_buf s k (c # cs) = scan_buf s2 (Suc k) cs"
      by (rule scan_buf_step)
    show ?thesis
    proof (cases "cs = []")
      case True
      with Cons.prems step have "s' = s2" "c = CHR ''}''" by simp_all
      with Some show ?thesis using scan_step_brace by blast
    next
      case False
      with Cons.prems step Cons.IH [of s2 "Suc k"] show ?thesis by simp
    qed
  qed
qed

lemma readValue_append:
  assumes "readValue obj = (n, None)" "obj \<noteq> []" "last obj = CHR ''}''"
  shows "readValue (obj @ trailing) = (n, None) \<and> take n (obj @ trailing) = take n obj"
proof (cases "scan_buf scanner_reset 0 obj")
  case (Found m)
  with assms(1) have "m = n" by (simp add: readValue_def)
  with Found scan_buf_Found_append [of scanner_reset 0 obj n trailing]
    scan_buf_Found_bound [of scanner_reset 0 obj n]
  show ?thesis by (simp add: readValue_def)
next
  case (Failed e)
  with assms(1) have "e = None" "n = 0" by (simp_all add: readValue_def)
  with Failed scan_buf_Failed_append [of scanner_reset 0 obj e trailing]
  show ?thesis by (simp add: readValue_def)
next
  case (Exhausted s')
  with assms(2,3) have "fst (scan_step s' (CHR '' '')) \<noteq> scanEnd"
    using scan_buf_Exhausted_brace by blast
  with Exhausted assms(1) show ?thesis
    by (simp add: readValue_def split: if_splits)
qed

lemma Decode_append:
  assumes "Decode unmarshal obj v = (None, s)" "obj \<noteq> []" "last obj = CHR ''}''"
  shows "Decode unmarshal (obj @ trailing) v = (None, s)"
proof -
  obtain n e where rv: "readValue obj = (n, e)" by (cases "readValue obj")
  with assms(1) have "e = None"
    by (cases e) (simp_all add: Decode_def)
  with rv assms(2,3) readValue_append [of obj n trailing]
  have h1: "readValue (obj @ trailing) = (n, None)"
    and h2: "take n (obj @ trailing) = take n obj"
    by simp_all
  from assms(1) rv \<open>e = None\<close> have "unmarshal (take n obj) v = (None, s)"
    by (simp add: Decode_def)
  with h1 h2 show ?thesis
    by (simp add: Decode_def del: take_append)
qed


section \<open>Properties of the handler\<close>

lemma readValue_Nil: "readValue [] = (0, Some EOF)"
  by (simp add: readValue_def scanner_reset_def scan_step_def stateBeginValue_def isSpace_def nonSpace_def)

lemma Decode_Nil: "Decode unmarshal [] v = (Some EOF, v)"
  by (simp add: Decode_def readValue_Nil)

lemma validate_Name:
  "validate_string is_email ''Name'' Student_Name_tags v =
     (if v = [] then [\<lparr>ActualTag = ''required'', Field_name = ''Name''\<rparr>] else [])"
  by (simp add: validate_string_def Student_Name_tags_def)

lemma validate_Email:
  "validate_string is_email ''Email'' Student_Email_tags v =
     (if v = [] then [\<lparr>ActualTag = ''required'', Field_name = ''Email''\<rparr>]
      else if \<not> is_email v then [\<lparr>ActualTag = ''email'', Field_name = ''Email''\<rparr>]
      else [])"
  by (simp add: validate_string_def Student_Email_tags_def)

lemma validate_Age:
  "validate_int ''Age'' Student_Age_tags v =
     (if v = 0 then [\<lparr>ActualTag = ''required'', Field_name = ''Age''\<rparr>]
      else if v < 0 then [\<lparr>ActualTag = ''gt'', Field_name = ''Age''\<rparr>]
      else [])"
  by (auto simp add: validate_int_def Student_Age_tags_def)

lemma validator_Struct_failures:
  "validator_Struct is_email s =
     (if Student_failures is_email s = [] then None
      else Some (ValidationErrors (Student_failures is_email s)))"
  by (simp add: validator_Struct_def Let_def)

lemma failures_messages:
  "map (\<lambda>e. spec_sentence (ActualTag e) (Field_name e)) (Student_failures is_email s)
     = spec_messages is_email s"
  by (simp add: Student_failures_def validate_Name validate_Email validate_Age
      spec_messages_def spec_sentence_def)

lemma failures_Nil_iff:
  "Student_failures is_email s = [] \<longleftrightarrow>
     Name s \<noteq> [] \<and> Email s \<noteq> [] \<and> is_email (Email s) \<and> 0 < Age s"
  by (auto simp add: Student_failures_def validate_Name validate_Email validate_Age)

lemma ValidationError_failures:
  "ValidationError (Student_failures is_email s) =
     \<lparr>Status = ''Error'', Error = spec_concat '', '' (spec_messages is_email s)\<rparr>"
  by (simp add: ValidationError_def StatusError_def ValidationError_loop_map Join_spec_concat
      failures_messages)

lemma WriteJson_return_fresh:
  assumes "\<not> wroteHeader w" and "st = 400 \<or> st = 201"
  shows "WriteJson_return (WriteJson w st data) =
     (Returned,
      case marshal data of
        Inl e \<Rightarrow>
          w\<lparr>Header := (Header w)(''Content-Type'' \<mapsto> ''application/json''),
            headerCalls := Suc (headerCalls w), wroteHeader := True, status := st,
            sentHeader := (Header w)(''Content-Type'' \<mapsto> ''application/json'')\<rparr>
      | Inr b \<Rightarrow>
          w\<lparr>Header := (Header w)(''Content-Type'' \<mapsto> ''application/json''),
            headerCalls := Suc (headerCalls w), wroteHeader := True, status := st,
            sentHeader := (Header w)(''Content-Type'' \<mapsto> ''application/json''),
            written := (if connErr w = None then written w @ b @ [CHR 0x0A]
                        else written w)\<rparr>)"
  using WriteJson_handler_codes [OF assms, of data]
  by (simp add: WriteJson_return_def split: sum.splits)

lemma New_decoded:
  "Decode unmarshal (Body r) Student_zero = (None, s) \<Longrightarrow>
   New unmarshal is_email w r =
     (if Student_failures is_email s = []
      then WriteJson_return (WriteJson w 201 (DStringMap [(''Success'', ''ok'')]))
      else WriteJson_return
             (WriteJson w 400
                (DResponse \<lparr>Status = ''Error'',
                   Error = spec_concat '', '' (spec_messages is_email s)\<rparr>)))"
  by (simp add: New_def errors_Is_EOF_def validator_Struct_failures ValidationError_failures
      StatusBadRequest_def StatusCreated_def)

lemma encode_Success: \<open>encode_StringMap [(''Success'', ''ok'')] = ''{"Success":"ok"}''\<close>
  by (simp add: encode_StringMap_def appendString_def htmlSafeSet_def)

lemma encode_empty_body:
  \<open>encode_Response \<lparr>Status = ''Error'', Error = ''empty body''\<rparr>
     = ''{"status":"Error","error":"empty body"}''\<close>
  by (simp add: encode_Response_def appendString_def htmlSafeSet_def)

lemma WriteJson_return_any:
  assumes "st = 400 \<or> st = 201" and "marshal data = Inr b"
  shows "fst (WriteJson_return (WriteJson w st data)) = Returned
    \<and> headerCalls (snd (WriteJson_return (WriteJson w st data))) = Suc (headerCalls w)
    \<and> wroteHeader (snd (WriteJson_return (WriteJson w st data)))"
  using assms
  by (auto simp add: WriteJson_return_def WriteJson_def Encode_def Header_Set_def
      WriteHeader_def Write_def Let_def StatusOK_def StatusSwitchingProtocols_def
      split: option.splits)

lemma New_outcome: "fst (New unmarshal is_email w r) = Returned"
  by (simp add: New_def validator_Struct_failures WriteJson_return_any
      StatusBadRequest_def StatusCreated_def split: prod.splits option.splits)

lemma New_headerCalls:
  "headerCalls (snd (New unmarshal is_email w r)) = Suc (headerCalls w)
   \<and> wroteHeader (snd (New unmarshal is_email w r))"
  by (simp add: New_def validator_Struct_failures WriteJson_return_any
      StatusBadRequest_def StatusCreated_def split: prod.splits option.splits)

lemma New_status:
  "\<not> wroteHeader w \<Longrightarrow>
   status (snd (New unmarshal is_email w r)) = 400
   \<or> status (snd (New unmarshal is_email w r)) = 201"
  by (simp add: New_def validator_Struct_failures WriteJson_return_fresh
      StatusBadRequest_def StatusCreated_def split: prod.splits option.splits)

lemma Decode_example_body:
  "Decode example_unmarshal example_body Student_zero
     = (None, \<lparr>Name = ''Ann'', Email = ''ann@example.org'', Age = 20\<rparr>)"
  unfolding example_body_def by code_simp

text \<open>
  C1. For every request whose body decodes (without error) into a student with a non-empty
  name, a non-empty email of valid form and a positive age, the handler, on a writer whose
  header is not yet written and whose connection works, returns after one response: the
  status 201, the content type \<open>application/json\<close> and a body that is the JSON object
  \<open>{"Success":"ok"}\<close>, ended by the newline \<^verbatim>\<open>Encode\<close> appends. The writer is all the
  handler changes, and what it becomes does not depend on the student: no record of the
  student is kept.
\<close>

theorem New_valid_Created:
  assumes "Decode unmarshal (Body r) Student_zero = (None, s)"
    and "Name s \<noteq> []" and "Email s \<noteq> []" and "is_email (Email s)" and "0 < Age s"
    and "\<not> wroteHeader w" and "connErr w = None"
  shows \<open>New unmarshal is_email w r =
           (Returned,
            w\<lparr>Header := (Header w)(''Content-Type'' \<mapsto> ''application/json''),
              headerCalls := Suc (headerCalls w), wroteHeader := True, status := 201,
              sentHeader := (Header w)(''Content-Type'' \<mapsto> ''application/json''),
              written := written w @ ''{"Success":"ok"}'' @ [CHR 0x0A]\<rparr>)\<close>
proof -
  from assms(2-5) have "Student_failures is_email s = []"
    by (simp add: failures_Nil_iff)
  with assms(1,6,7) show ?thesis
    by (simp add: New_decoded WriteJson_return_fresh encode_Success)
qed

theorem New_valid_Created_witness:
  \<open>New example_unmarshal example_is_email (newResponse None) \<lparr>Body = example_body\<rparr> =
     (Returned,
      \<lparr>Header = [''Content-Type'' \<mapsto> ''application/json''], wroteHeader = True, status = 201,
       sentHeader = [''Content-Type'' \<mapsto> ''application/json''],
       written = ''{"Success":"ok"}'' @ [CHR 0x0A], connErr = None, headerCalls = 1\<rparr>)\<close>
proof -
  have d: "Decode example_unmarshal (Body \<lparr>Body = example_body\<rparr>) Student_zero
             = (None, \<lparr>Name = ''Ann'', Email = ''ann@example.org'', Age = 20\<rparr>)"
    by (simp add: Decode_example_body)
  show ?thesis
    using New_valid_Created [OF d, of example_is_email "newResponse None"]
    by (simp add: example_is_email_def newResponse_def)
qed

lemma failures_Nil_messages:
  "Student_failures is_email s = [] \<longleftrightarrow> spec_messages is_email s = []"
  using failures_messages [of is_email s, symmetric] by simp

lemma Decode_two_failures:
  "Decode example_unmarshal example_body_two_failures Student_zero
     = (None, \<lparr>Name = [], Email = ''not-an-email'', Age = 20\<rparr>)"
  unfolding example_body_two_failures_def by code_simp

lemma Decode_negative_age:
  "Decode example_unmarshal example_body_negative_age Student_zero
     = (None, \<lparr>Name = ''Ann'', Email = ''ann@example.org'', Age = - 3\<rparr>)"
  unfolding example_body_negative_age_def by code_simp

lemma encode_two_failures:
  \<open>encode_Response
      \<lparr>Status = ''Error'', Error = ''field Name is required field, field Email is invalid''\<rparr>
     = ''{"status":"Error","error":"field Name is required field, field Email is invalid"}''\<close>
  by (simp add: encode_Response_def appendString_def htmlSafeSet_def)

text \<open>
  C2. When the body decodes into a student that fails validation, on one field or on
  several at once, the handler answers 400 with the error envelope whose message holds one
  sentence for every failing field, not only for the first, joined by \<open>, \<close>, in the
  order in which the struct declares the fields (\<open>Name\<close>, \<open>Email\<close>, \<open>Age\<close>). The
  witness is a request without a name and with an email of invalid form: its message is
  \<open>field Name is required field, field Email is invalid\<close>.
\<close>

theorem New_invalid_all_fields:
  assumes "Decode unmarshal (Body r) Student_zero = (None, s)"
    and "spec_messages is_email s \<noteq> []"
    and "\<not> wroteHeader w" and "connErr w = None"
  shows "New unmarshal is_email w r =
           (Returned,
            w\<lparr>Header := (Header w)(''Content-Type'' \<mapsto> ''application/json''),
              headerCalls := Suc (headerCalls w), wroteHeader := True, status := 400,
              sentHeader := (Header w)(''Content-Type'' \<mapsto> ''application/json''),
              written := written w
                @ encode_Response
                    \<lparr>Status = ''Error'',
                     Error = spec_concat '', '' (spec_messages is_email s)\<rparr>
                @ [CHR 0x0A]\<rparr>)"
proof -
  from assms(2) have "Student_failures is_email s \<noteq> []"
    by (simp add: failures_Nil_messages)
  with assms(1,3,4) show ?thesis
    by (simp add: New_decoded WriteJson_return_fresh)
qed

theorem New_invalid_all_fields_witness:
  \<open>spec_messages example_is_email \<lparr>Name = [], Email = ''not-an-email'', Age = 20\<rparr>
     = [''field Name is required field'', ''field Email is invalid'']
   \<and> New example_unmarshal example_is_email (newResponse None)
         \<lparr>Body = example_body_two_failures\<rparr> =
       (Returned,
        \<lparr>Header = [''Content-Type'' \<mapsto> ''application/json''], wroteHeader = True,
         status = 400, sentHeader = [''Content-Type'' \<mapsto> ''application/json''],
         written =
           ''{"status":"Error","error":"field Name is required field, field Email is invalid"}''
           @ [CHR 0x0A],
         connErr = None, headerCalls = 1\<rparr>)\<close>
proof -
  have d: "Decode example_unmarshal (Body \<lparr>Body = example_body_two_failures\<rparr>) Student_zero
             = (None, \<lparr>Name = [], Email = ''not-an-email'', Age = 20\<rparr>)"
    by (simp add: Decode_two_failures)
  have m: "spec_messages example_is_email \<lparr>Name = [], Email = ''not-an-email'', Age = 20\<rparr>
             = [''field Name is required field'', ''field Email is invalid'']"
    by (simp add: spec_messages_def example_is_email_def)
  have e: "spec_concat '', '' [''field Name is required field'', ''field Email is invalid'']
             = ''field Name is required field, field Email is invalid''"
    by (simp add: spec_concat_def)
  show ?thesis
    using New_invalid_all_fields [OF d, of example_is_email "newResponse None"]
    by (simp add: m e encode_two_failures newResponse_def)
qed

lemma encode_empty_body_bytes:
  \<open>encode_Response (GeneralError (ErrorString ''empty body''))
     = ''{"status":"Error","error":"empty body"}''\<close>
  by (simp add: GeneralError_def StatusError_def encode_empty_body)

text \<open>
  C4. For a request whose body is empty, \<^verbatim>\<open>Decode\<close> returns \<^verbatim>\<open>io.EOF\<close> and the
  handler answers with the status 400 and the error envelope of \<open>empty body\<close>: its
  status is \<open>Error\<close>, its error message is exactly \<open>empty body\<close>, and the body
  written is its JSON text.
\<close>

theorem New_empty_body:
  assumes "Body r = []" and "\<not> wroteHeader w" and "connErr w = None"
  shows \<open>GeneralError (ErrorString ''empty body'') = \<lparr>Status = ''Error'', Error = ''empty body''\<rparr>
    \<and> New unmarshal is_email w r =
        (Returned,
         w\<lparr>Header := (Header w)(''Content-Type'' \<mapsto> ''application/json''),
           headerCalls := Suc (headerCalls w), wroteHeader := True, status := 400,
           sentHeader := (Header w)(''Content-Type'' \<mapsto> ''application/json''),
           written := written w @ ''{"status":"Error","error":"empty body"}'' @ [CHR 0x0A]\<rparr>)\<close>
  using assms
  by (simp add: New_def Decode_Nil errors_Is_EOF_def StatusBadRequest_def WriteJson_return_fresh
      encode_empty_body_bytes)
     (simp add: GeneralError_def StatusError_def)

theorem New_empty_body_witness:
  \<open>New example_unmarshal example_is_email (newResponse None) \<lparr>Body = []\<rparr> =
     (Returned,
      \<lparr>Header = [''Content-Type'' \<mapsto> ''application/json''], wroteHeader = True,
       status = 400, sentHeader = [''Content-Type'' \<mapsto> ''application/json''],
       written = ''{"status":"Error","error":"empty body"}'' @ [CHR 0x0A],
       connErr = None, headerCalls = 1\<rparr>)\<close>
proof -
  have b: "Body \<lparr>Body = []\<rparr> = []" by simp
  have f: "\<not> wroteHeader (newResponse None)" by (simp add: newResponse_def)
  have c: "connErr (newResponse None) = None" by (simp add: newResponse_def)
  show ?thesis
    using New_empty_body [OF b f c, of example_unmarshal example_is_email]
    by (simp add: newResponse_def)
qed

text \<open>
  C5. For every request whose body decodes without error into a student whose age is not
  positive (zero or negative), validation fails and the handler answers with the status
  400. The constraint on the age is the one the specification's data model states
  (required, positive), since the declaration of \<^verbatim>\<open>types.Student\<close> is not among the
  sources.
\<close>

theorem New_age_not_positive:
  assumes "Decode unmarshal (Body r) Student_zero = (None, s)"
    and "Age s \<le> 0" and "\<not> wroteHeader w"
  shows "validator_Struct is_email s \<noteq> None
    \<and> fst (New unmarshal is_email w r) = Returned
    \<and> wroteHeader (snd (New unmarshal is_email w r))
    \<and> status (snd (New unmarshal is_email w r)) = 400"
proof -
  from assms(2) have f: "Student_failures is_email s \<noteq> []"
    by (simp add: failures_Nil_iff)
  then have "validator_Struct is_email s \<noteq> None"
    by (simp add: validator_Struct_failures)
  moreover from f assms(1,3) have "status (snd (New unmarshal is_email w r)) = 400"
    by (simp add: New_decoded WriteJson_return_fresh)
  ultimately show ?thesis
    by (simp add: New_outcome New_headerCalls)
qed

theorem New_age_not_positive_witness:
  "Age \<lparr>Name = ''Ann'', Email = ''ann@example.org'', Age = - 3\<rparr> \<le> 0
   \<and> fst (New example_unmarshal example_is_email (newResponse None)
            \<lparr>Body = example_body_negative_age\<rparr>) = Returned
   \<and> status (snd (New example_unmarshal example_is_email (newResponse None)
                    \<lparr>Body = example_body_negative_age\<rparr>)) = 400"
proof -
  have d: "Decode example_unmarshal (Body \<lparr>Body = example_body_negative_age\<rparr>) Student_zero
             = (None, \<lparr>Name = ''Ann'', Email = ''ann@example.org'', Age = - 3\<rparr>)"
    by (simp add: Decode_negative_age)
  have a: "Age \<lparr>Name = ''Ann'', Email = ''ann@example.org'', Age = - 3\<rparr> \<le> 0" by simp
  have f: "\<not> wroteHeader (newResponse None)" by (simp add: newResponse_def)
  show ?thesis
    using New_age_not_positive [OF d a f, of example_is_email] a by simp
qed

text \<open>
  The tag \<open>required\<close> alone rejects the age 0 only: it is the tag \<open>gt=0\<close> that
  rejects a negative age.
\<close>

lemma validate_int_required_only:
  "validate_int ''Age'' [IRequired] v =
     (if v = 0 then [\<lparr>ActualTag = ''required'', Field_name = ''Age''\<rparr>] else [])"
  by (simp add: validate_int_def)

text \<open>
  C6. For every request body, every result of decoding it, every writer and every state of
  the connection, the handler returns normally: it never panics, whether the body is
  malformed, validation fails or the write to the connection fails. On the way it calls
  \<^verbatim>\<open>WriteHeader\<close> exactly once, so it writes one response, whose status on a new writer
  is 400 or 201. (The handler has no deadline; the shutdown of the server is not part of
  a request's handling.)
\<close>

theorem New_never_panics:
  "fst (New unmarshal is_email w r) = Returned
   \<and> headerCalls (snd (New unmarshal is_email w r)) = Suc (headerCalls w)
   \<and> wroteHeader (snd (New unmarshal is_email w r))
   \<and> (status (snd (New unmarshal is_email (newResponse ce) r)) = 400
      \<or> status (snd (New unmarshal is_email (newResponse ce) r)) = 201)"
proof -
  have "\<not> wroteHeader (newResponse ce)" by (simp add: newResponse_def)
  then show ?thesis
    using New_status [of "newResponse ce" unmarshal is_email r]
    by (simp add: New_outcome New_headerCalls)
qed

text \<open>
  C10. The handler decodes the first JSON value of the body only. For every body made of
  one object that decodes without error (the bytes \<open>obj\<close>, which end with the closing
  brace of the object) followed by any further bytes, the decoder returns the same student
  as for the object alone, so the request is not rejected as a decode failure; the handler
  gives the same response as for the object alone, with the status 201 if the student
  passes validation (and 400 from validation otherwise).
\<close>

theorem Decode_first_value_only:
  assumes "Decode unmarshal obj Student_zero = (None, s)"
    and "obj \<noteq> []" and "last obj = CHR ''}''"
  shows "Decode unmarshal (obj @ trailing) Student_zero = (None, s)
    \<and> New unmarshal is_email w \<lparr>Body = obj @ trailing\<rparr> = New unmarshal is_email w \<lparr>Body = obj\<rparr>
    \<and> status (snd (New unmarshal is_email (newResponse ce) \<lparr>Body = obj @ trailing\<rparr>))
        = (if validator_Struct is_email s = None then 201 else 400)"
proof -
  have d: "Decode unmarshal (obj @ trailing) Student_zero = (None, s)"
    using assms by (rule Decode_append)
  have n: "New unmarshal is_email w \<lparr>Body = obj @ trailing\<rparr> = New unmarshal is_email w \<lparr>Body = obj\<rparr>"
    using d assms(1) by (simp add: New_def)
  have f: "\<not> wroteHeader (newResponse ce)" by (simp add: newResponse_def)
  have "status (snd (New unmarshal is_email (newResponse ce) \<lparr>Body = obj @ trailing\<rparr>))
        = (if validator_Struct is_email s = None then 201 else 400)"
    using d f by (simp add: New_decoded WriteJson_return_fresh validator_Struct_failures)
  with d n show ?thesis by simp
qed

theorem Decode_first_value_only_witness:
  \<open>last example_body = CHR ''}''
   \<and> Decode example_unmarshal (example_body @ '' {"age": and more'') Student_zero
       = (None, \<lparr>Name = ''Ann'', Email = ''ann@example.org'', Age = 20\<rparr>)
   \<and> status (snd (New example_unmarshal example_is_email (newResponse None)
                    \<lparr>Body = example_body @ '' {"age": and more''\<rparr>)) = 201\<close>
proof -
  have l: "last example_body = CHR ''}''" by (simp add: example_body_def)
  have ne: "example_body \<noteq> []" by (simp add: example_body_def)
  have v: "validator_Struct example_is_email
             \<lparr>Name = ''Ann'', Email = ''ann@example.org'', Age = 20\<rparr> = None"
    by (simp add: validator_Struct_failures failures_Nil_iff example_is_email_def)
  note th = Decode_first_value_only [OF Decode_example_body ne l,
      of \<open>'' {"age": and more''\<close> example_is_email "newResponse None" None]
  have c1: \<open>Decode example_unmarshal (example_body @ '' {"age": and more'') Student_zero
       = (None, \<lparr>Name = ''Ann'', Email = ''ann@example.org'', Age = 20\<rparr>)\<close>
    using th by (rule conjunct1)
  have c3: \<open>status (snd (New example_unmarshal example_is_email (newResponse None)
                    \<lparr>Body = example_body @ '' {"age": and more''\<rparr>)) = 201\<close>
    using th [THEN conjunct2, THEN conjunct2] v by simp
  show ?thesis
    using l c1 c3 by blast
qed

end
